theory Spec2Isabelle
  imports Main "HOL-Library.Word"
begin

section \<open>The bot server of \<^verbatim>\<open>server.go\<close>\<close>

text \<open>
  \<^verbatim>\<open>server.go\<close> is the top-level wiring of the bot: a \<^verbatim>\<open>Server\<close> struct and its
  methods, each of which either updates a field of the struct or delegates to one of two
  interface values held by it, the \<^verbatim>\<open>Mux\<close> (routing) and the \<^verbatim>\<open>adapter.BotAdapter\<close>
  (transport). Go mutates the struct through a pointer; here every method takes the server
  and returns the updated one. The two interfaces are declared outside \<^verbatim>\<open>server.go\<close>, so
  their methods are passed to the functions that call them, as records of operations on an
  interface value's state.
\<close>

subsection \<open>Handlers, middlewares, messages\<close>

text \<open>
  A \<^verbatim>\<open>HandlerFunction\<close> is a Go \<^verbatim>\<open>func(*Message)\<close> that acts by side effect; it is a
  transformer of the world \<open>'w\<close> its effects live in. A \<^verbatim>\<open>Middleware\<close> is
  \<^verbatim>\<open>func(HandlerFunction) HandlerFunction\<close>.
\<close>

type_synonym ('m, 'w) HandlerFunction = "'m \<Rightarrow> 'w \<Rightarrow> 'w"

type_synonym ('m, 'w) Middleware = "('m, 'w) HandlerFunction \<Rightarrow> ('m, 'w) HandlerFunction"

text \<open>
  \<^verbatim>\<open>&Message{Message: update}\<close>: the bot's message wraps the update received from the
  adapter; every other field of the struct has its zero value when the server builds it.
\<close>

record 'u tbot_Message =
  Message :: 'u

text \<open>
  Modelled from the spec: \<^verbatim>\<open>model.MessageType\<close> is declared outside \<^verbatim>\<open>server.go\<close>. Of
  the message types only \<^verbatim>\<open>model.MessageText\<close> (a text message) is named by the server;
  the others are numbered.
\<close>

datatype MessageType = MessageText | MessageOther nat

text \<open>
  Modelled from the spec: \<^verbatim>\<open>model.Message\<close>, the fully specified message object sent
  through the adapter, is declared outside \<^verbatim>\<open>server.go\<close>. The server sets its fields
  \<^verbatim>\<open>Type\<close>, \<^verbatim>\<open>ChatID\<close> (an \<^verbatim>\<open>int64\<close>) and \<^verbatim>\<open>Data\<close>.
\<close>

record model_Message =
  Type :: MessageType
  ChatID :: "64 word"
  Data :: string

subsection \<open>The two interfaces\<close>

text \<open>
  The methods of \<^verbatim>\<open>Mux\<close> that \<^verbatim>\<open>server.go\<close> calls, on a mux state \<open>'mux\<close>. A variadic
  \<^verbatim>\<open>description ...string\<close> is a list of strings.
\<close>

record ('mux, 'h) Mux =
  Mux_HandleFunc :: "string \<Rightarrow> 'h \<Rightarrow> string list \<Rightarrow> 'mux \<Rightarrow> 'mux"
  Mux_HandleFile :: "'h \<Rightarrow> string list \<Rightarrow> 'mux \<Rightarrow> 'mux"
  Mux_HandleDefault :: "'h \<Rightarrow> string list \<Rightarrow> 'mux \<Rightarrow> 'mux"
  Mux_SetAlias :: "string \<Rightarrow> string list \<Rightarrow> 'mux \<Rightarrow> 'mux"
  Mux_Reset :: "64 word \<Rightarrow> 'mux \<Rightarrow> 'mux"

text \<open>
  The channel returned by \<^verbatim>\<open>GetUpdatesChan\<close>, seen from the loop that ranges over it:
  either it delivers finitely many updates and is then closed, or it is never closed and
  delivers update \<open>n\<close> for every \<open>n\<close>.
\<close>

datatype 'u updates_chan = Closes "'u list" | NeverCloses "nat \<Rightarrow> 'u"

text \<open>
  The methods of \<^verbatim>\<open>adapter.BotAdapter\<close> that \<^verbatim>\<open>server.go\<close> calls, on an adapter state
  \<open>'bot\<close>. A Go \<^verbatim>\<open>error\<close> result is an \<open>'err option\<close>, \<open>None\<close> being \<^verbatim>\<open>nil\<close>.
\<close>

record ('bot, 'u, 'err) BotAdapter =
  Adapter_GetUpdatesChan :: "string \<Rightarrow> string \<Rightarrow> 'bot \<Rightarrow> 'err + 'u updates_chan"
  Adapter_Send :: "model_Message \<Rightarrow> 'bot \<Rightarrow> 'err option \<times> 'bot"
  Adapter_SendRaw :: "string \<Rightarrow> (string \<rightharpoonup> string) \<Rightarrow> 'bot \<Rightarrow> 'err option \<times> 'bot"

subsection \<open>The server\<close>

text \<open>
  The struct \<^verbatim>\<open>Server\<close>. The field \<^verbatim>\<open>bot\<close> is an interface value that is \<^verbatim>\<open>nil\<close> until
  \<^verbatim>\<open>NewServer\<close> has created the adapter: \<open>None\<close> is \<^verbatim>\<open>nil\<close>. (It is named
  \<open>bot_adapter\<close> here, \<open>bot\<close> being the least element of a lattice in HOL.)
\<close>

record ('mux, 'client, 'bot, 'm, 'w) Server =
  mux :: 'mux
  httpClient :: 'client
  middlewares :: "('m, 'w) Middleware list"
  webhookURL :: string
  listenAddr :: string
  bot_adapter :: "'bot option"

text \<open>
  \<^verbatim>\<open>type ServerOption func(*Server)\<close>, a function that updates the server it is given, and
  the three options the package offers. The mux given to \<^verbatim>\<open>WithMux\<close> is a mux, not \<^verbatim>\<open>nil\<close>.
\<close>

type_synonym ('mux, 'client, 'bot, 'm, 'w) ServerOption =
  "('mux, 'client, 'bot, 'm, 'w) Server \<Rightarrow> ('mux, 'client, 'bot, 'm, 'w) Server"

definition WithWebhook ::
  "string \<Rightarrow> string \<Rightarrow> ('mux, 'client, 'bot, 'm, 'w) ServerOption" where
  "WithWebhook url addr = (\<lambda>s. s\<lparr>webhookURL := url, listenAddr := addr\<rparr>)"

definition WithMux :: "'mux \<Rightarrow> ('mux, 'client, 'bot, 'm, 'w) ServerOption" where
  "WithMux m = (\<lambda>s. s\<lparr>mux := m\<rparr>)"

definition WithHttpClient :: "'client \<Rightarrow> ('mux, 'client, 'bot, 'm, 'w) ServerOption" where
  "WithHttpClient client = (\<lambda>s. s\<lparr>httpClient := client\<rparr>)"

text \<open>\<^verbatim>\<open>s.middlewares = append(s.middlewares, mid)\<close>\<close>

definition AddMiddleware ::
  "('m, 'w) Middleware \<Rightarrow> ('mux, 'client, 'bot, 'm, 'w) Server
     \<Rightarrow> ('mux, 'client, 'bot, 'm, 'w) Server" where
  "AddMiddleware mid s = s\<lparr>middlewares := middlewares s @ [mid]\<rparr>"

text \<open>The methods that delegate to the current mux.\<close>

definition HandleFunc ::
  "('mux, ('m, 'w) HandlerFunction) Mux \<Rightarrow> string \<Rightarrow> ('m, 'w) HandlerFunction \<Rightarrow> string list
     \<Rightarrow> ('mux, 'client, 'bot, 'm, 'w) Server \<Rightarrow> ('mux, 'client, 'bot, 'm, 'w) Server" where
  "HandleFunc M path handler description s =
     s\<lparr>mux := Mux_HandleFunc M path handler description (mux s)\<rparr>"

text \<open>
  \<^verbatim>\<open>Handle\<close> builds the closure \<^verbatim>\<open>func(m *Message) { m.Reply(reply) }\<close> and registers it
  with \<^verbatim>\<open>HandleFunc\<close>. The method \<^verbatim>\<open>Message.Reply\<close> is declared outside \<^verbatim>\<open>server.go\<close>: its
  effect on the world is the parameter \<open>Reply\<close>.
\<close>

definition Handle ::
  "('mux, ('m, 'w) HandlerFunction) Mux \<Rightarrow> ('m \<Rightarrow> string \<Rightarrow> 'w \<Rightarrow> 'w) \<Rightarrow> string \<Rightarrow> string
     \<Rightarrow> string list
     \<Rightarrow> ('mux, 'client, 'bot, 'm, 'w) Server \<Rightarrow> ('mux, 'client, 'bot, 'm, 'w) Server" where
  "Handle M Reply path reply description s =
     (let f = (\<lambda>m. Reply m reply) in HandleFunc M path f description s)"

definition HandleFile ::
  "('mux, ('m, 'w) HandlerFunction) Mux \<Rightarrow> ('m, 'w) HandlerFunction \<Rightarrow> string list
     \<Rightarrow> ('mux, 'client, 'bot, 'm, 'w) Server \<Rightarrow> ('mux, 'client, 'bot, 'm, 'w) Server" where
  "HandleFile M handler description s =
     s\<lparr>mux := Mux_HandleFile M handler description (mux s)\<rparr>"

definition HandleDefault ::
  "('mux, ('m, 'w) HandlerFunction) Mux \<Rightarrow> ('m, 'w) HandlerFunction \<Rightarrow> string list
     \<Rightarrow> ('mux, 'client, 'bot, 'm, 'w) Server \<Rightarrow> ('mux, 'client, 'bot, 'm, 'w) Server" where
  "HandleDefault M handler description s =
     s\<lparr>mux := Mux_HandleDefault M handler description (mux s)\<rparr>"

definition SetAlias ::
  "('mux, ('m, 'w) HandlerFunction) Mux \<Rightarrow> string \<Rightarrow> string list
     \<Rightarrow> ('mux, 'client, 'bot, 'm, 'w) Server \<Rightarrow> ('mux, 'client, 'bot, 'm, 'w) Server" where
  "SetAlias M route aliases s = s\<lparr>mux := Mux_SetAlias M route aliases (mux s)\<rparr>"

definition Reset ::
  "('mux, ('m, 'w) HandlerFunction) Mux \<Rightarrow> 64 word
     \<Rightarrow> ('mux, 'client, 'bot, 'm, 'w) Server \<Rightarrow> ('mux, 'client, 'bot, 'm, 'w) Server" where
  "Reset M chatID s = s\<lparr>mux := Mux_Reset M chatID (mux s)\<rparr>"

text \<open>
  The methods that delegate to the adapter. A method call on the \<^verbatim>\<open>nil\<close> interface value
  panics: the result is \<open>None\<close>. Otherwise the result is the adapter's \<^verbatim>\<open>error\<close> together
  with the server, whose adapter has seen the call.
\<close>

definition Send ::
  "('bot, 'u, 'err) BotAdapter \<Rightarrow> 64 word \<Rightarrow> string \<Rightarrow> ('mux, 'client, 'bot, 'm, 'w) Server
     \<Rightarrow> ('err option \<times> ('mux, 'client, 'bot, 'm, 'w) Server) option" where
  "Send B chatID text s =
     (case bot_adapter s of
        None \<Rightarrow> None
      | Some b \<Rightarrow>
          (case Adapter_Send B \<lparr>Type = MessageText, ChatID = chatID, Data = text\<rparr> b of
             (err, b') \<Rightarrow> Some (err, s\<lparr>bot_adapter := Some b'\<rparr>)))"

definition SendMessage ::
  "('bot, 'u, 'err) BotAdapter \<Rightarrow> model_Message \<Rightarrow> ('mux, 'client, 'bot, 'm, 'w) Server
     \<Rightarrow> ('err option \<times> ('mux, 'client, 'bot, 'm, 'w) Server) option" where
  "SendMessage B m s =
     (case bot_adapter s of
        None \<Rightarrow> None
      | Some b \<Rightarrow>
          (case Adapter_Send B m b of (err, b') \<Rightarrow> Some (err, s\<lparr>bot_adapter := Some b'\<rparr>)))"

definition SendRaw ::
  "('bot, 'u, 'err) BotAdapter \<Rightarrow> string \<Rightarrow> (string \<rightharpoonup> string)
     \<Rightarrow> ('mux, 'client, 'bot, 'm, 'w) Server
     \<Rightarrow> ('err option \<times> ('mux, 'client, 'bot, 'm, 'w) Server) option" where
  "SendRaw B endpoint params s =
     (case bot_adapter s of
        None \<Rightarrow> None
      | Some b \<Rightarrow>
          (case Adapter_SendRaw B endpoint params b of
             (err, b') \<Rightarrow> Some (err, s\<lparr>bot_adapter := Some b'\<rparr>)))"

text \<open>
  \<^verbatim>\<open>createBot\<close> is a package variable holding a function that returns the Go pair
  \<^verbatim>\<open>(adapter.BotAdapter, error)\<close>; \<^verbatim>\<open>NewDefaultMux()\<close>, \<^verbatim>\<open>http.DefaultClient\<close> and the
  method value \<^verbatim>\<open>server.HelpHandler\<close> are declared outside \<^verbatim>\<open>server.go\<close>. All four are
  parameters. The result \<open>Inl err\<close> is the Go pair \<^verbatim>\<open>(nil, err)\<close>, and \<open>Inr server\<close> is
  \<^verbatim>\<open>(server, nil)\<close>. The loop over the options is a \<open>fold\<close>.
\<close>

definition NewServer ::
  "('mux, ('m, 'w) HandlerFunction) Mux \<Rightarrow> (string \<Rightarrow> 'client \<Rightarrow> 'bot option \<times> 'err option)
     \<Rightarrow> 'mux \<Rightarrow> 'client \<Rightarrow> ('m, 'w) HandlerFunction
     \<Rightarrow> string \<Rightarrow> ('mux, 'client, 'bot, 'm, 'w) ServerOption list
     \<Rightarrow> 'err + ('mux, 'client, 'bot, 'm, 'w) Server" where
  "NewServer M createBot NewDefaultMux DefaultClient HelpHandler token options =
     (let server = \<lparr>mux = NewDefaultMux, httpClient = DefaultClient, middlewares = [],
                    webhookURL = [], listenAddr = [], bot_adapter = None\<rparr>;
          server = fold (\<lambda>option server. option server) options server
      in case createBot token (httpClient server) of
           (tbot, Some err) \<Rightarrow> Inl err
         | (tbot, None) \<Rightarrow>
             Inr (HandleFunc M ''/help'' HelpHandler [] (server\<lparr>bot_adapter := tbot\<rparr>)))"

text \<open>
  \<^verbatim>\<open>go s.processMessage(&Message{Message: update})\<close> starts a goroutine and does not
  wait for it. What the loop has done when it ends is the list of goroutines it started,
  in the order in which it started them.
\<close>

datatype 'u goroutine = Go_processMessage "'u tbot_Message"

fun serve_loop :: "'u list \<Rightarrow> 'u goroutine list \<Rightarrow> 'u goroutine list" where
  "serve_loop [] started = started"
| "serve_loop (update # updates) started =
     serve_loop updates (started @ [Go_processMessage \<lparr>Message = update\<rparr>])"

text \<open>
  What a call of \<^verbatim>\<open>ListenAndServe\<close> comes to: a panic on a \<^verbatim>\<open>nil\<close> adapter; a return
  with an \<^verbatim>\<open>error\<close> (or \<^verbatim>\<open>nil\<close>) after having started some goroutines; or, on a channel
  that is never closed, no return at all, goroutine \<open>n\<close> being started for update \<open>n\<close>.
\<close>

datatype ('err, 'u) served =
  NilPanic
| Returned "'err option" "'u goroutine list"
| NeverReturns "nat \<Rightarrow> 'u goroutine"

definition ListenAndServe ::
  "('bot, 'u, 'err) BotAdapter \<Rightarrow> ('mux, 'client, 'bot, 'm, 'w) Server \<Rightarrow> ('err, 'u) served" where
  "ListenAndServe B s =
     (case bot_adapter s of
        None \<Rightarrow> NilPanic
      | Some b \<Rightarrow>
          (case Adapter_GetUpdatesChan B (webhookURL s) (listenAddr s) b of
             Inl err \<Rightarrow> Returned (Some err) []
           | Inr (Closes updates) \<Rightarrow> Returned None (serve_loop updates [])
           | Inr (NeverCloses updates) \<Rightarrow>
               NeverReturns (\<lambda>n. Go_processMessage \<lparr>Message = updates n\<rparr>)))"

section \<open>The router and the dispatcher, from the specification\<close>

text \<open>
  The default implementation of \<^verbatim>\<open>Mux\<close> (the router behind \<^verbatim>\<open>NewDefaultMux()\<close>) and the
  body of \<^verbatim>\<open>Server.processMessage\<close> are not part of \<^verbatim>\<open>server.go\<close>, which only calls
  them. Each definition of this section is written from the specification.
\<close>

text \<open>
  Modelled from the spec: a route of the router (section 3), which owns one handler and a
  description.
\<close>

record 'h Route =
  route_handler :: 'h
  route_description :: "string list"

text \<open>
  Modelled from the spec: the state of the default mux (section 3). Routes are identified
  by their canonical path, one route per path; aliases map to canonical paths; there is at
  most one default and one file handler; conversation state of shape \<open>'c\<close> is kept per
  chat id. A registration error (section 7, a) is a failure at setup time with no error
  return: \<open>registration_failed\<close> tells that a registration was refused, the tables being
  as they were before the refused call.
\<close>

record ('h, 'c) DefaultMux =
  routes :: "string \<rightharpoonup> 'h Route"
  alias_table :: "string \<rightharpoonup> string"
  defaultHandler :: "'h Route option"
  fileHandler :: "'h Route option"
  conversations :: "64 word \<rightharpoonup> 'c"
  registration_failed :: bool

text \<open>
  Modelled from the spec: the inbound event (section 3), carrying raw command text, a file
  payload when it is an upload, and the chat id.
\<close>

record Event =
  event_text :: string
  event_file :: "string option"
  event_chatID :: "64 word"

text \<open>
  Modelled from the spec: the command path of an event (section 4.1), the leading token of
  its raw text.
\<close>

definition command :: "'z Event_scheme \<Rightarrow> string" where
  "command e = takeWhile (\<lambda>c. c \<noteq> CHR '' '') (event_text e)"

text \<open>
  Modelled from the spec: \<^verbatim>\<open>NewDefaultMux()\<close>, a router with no route, alias, handler or
  conversation yet, and no refused registration.
\<close>

definition NewDefaultMux :: "('h, 'c) DefaultMux" where
  "NewDefaultMux = \<lparr>routes = Map.empty, alias_table = Map.empty, defaultHandler = None,
                     fileHandler = None, conversations = Map.empty,
                     registration_failed = False\<rparr>"

text \<open>
  Modelled from the spec: \<^verbatim>\<open>HandleFunc\<close> of the router (section 4.1) registers or
  overwrites the route at the path. The path must not be empty: an empty path is a
  registration error, which fails fast and registers nothing. (The handler must not be
  \<^verbatim>\<open>nil\<close>; a handler is a function here, so it never is.)
\<close>

definition DefaultMux_HandleFunc ::
  "string \<Rightarrow> 'h \<Rightarrow> string list \<Rightarrow> ('h, 'c) DefaultMux \<Rightarrow> ('h, 'c) DefaultMux" where
  "DefaultMux_HandleFunc path h d m =
     (if path = [] then m\<lparr>registration_failed := True\<rparr>
      else m\<lparr>routes := (routes m)(path \<mapsto> \<lparr>route_handler = h, route_description = d\<rparr>)\<rparr>)"

text \<open>
  Modelled from the spec: \<^verbatim>\<open>HandleFile\<close> of the router (section 4.1) sets the single file
  handler, replacing any previous one.
\<close>

definition DefaultMux_HandleFile ::
  "'h \<Rightarrow> string list \<Rightarrow> ('h, 'c) DefaultMux \<Rightarrow> ('h, 'c) DefaultMux" where
  "DefaultMux_HandleFile h d m =
     m\<lparr>fileHandler := Some \<lparr>route_handler = h, route_description = d\<rparr>\<rparr>"

text \<open>
  Modelled from the spec: \<^verbatim>\<open>HandleDefault\<close> of the router (section 4.1) sets the single
  fallback handler, replacing any previous one.
\<close>

definition DefaultMux_HandleDefault ::
  "'h \<Rightarrow> string list \<Rightarrow> ('h, 'c) DefaultMux \<Rightarrow> ('h, 'c) DefaultMux" where
  "DefaultMux_HandleDefault h d m =
     m\<lparr>defaultHandler := Some \<lparr>route_handler = h, route_description = d\<rparr>\<rparr>"

text \<open>
  Modelled from the spec: \<^verbatim>\<open>SetAlias\<close> of the router (section 4.1) stores each alias for
  the route without validating the route; the last write of an alias wins.
\<close>

definition DefaultMux_SetAlias ::
  "string \<Rightarrow> string list \<Rightarrow> ('h, 'c) DefaultMux \<Rightarrow> ('h, 'c) DefaultMux" where
  "DefaultMux_SetAlias route als m =
     m\<lparr>alias_table := fold (\<lambda>a t. t(a \<mapsto> route)) als (alias_table m)\<rparr>"

text \<open>
  Modelled from the spec: \<^verbatim>\<open>Reset\<close> of the router (section 4.1) clears the conversation
  state of the chat id.
\<close>

definition DefaultMux_Reset :: "64 word \<Rightarrow> ('h, 'c) DefaultMux \<Rightarrow> ('h, 'c) DefaultMux" where
  "DefaultMux_Reset chatID m = m\<lparr>conversations := (conversations m)(chatID := None)\<rparr>"

text \<open>
  Modelled from the spec: the default mux as an implementation of the \<^verbatim>\<open>Mux\<close> interface.
\<close>

definition DefaultMux_ops :: "(('h, 'c) DefaultMux, 'h) Mux" where
  "DefaultMux_ops =
     \<lparr>Mux_HandleFunc = DefaultMux_HandleFunc, Mux_HandleFile = DefaultMux_HandleFile,
      Mux_HandleDefault = DefaultMux_HandleDefault, Mux_SetAlias = DefaultMux_SetAlias,
      Mux_Reset = DefaultMux_Reset\<rparr>"

text \<open>
  Modelled from the spec: resolution of an event to a route (section 4.1, Resolve). A file
  upload bypasses the path tables and uses the file handler; a command is looked up in the
  route table first and through the alias table second; whatever is still unresolved goes
  to the default handler; \<open>None\<close> is the dropped event.
\<close>

definition Resolve :: "('h, 'c) DefaultMux \<Rightarrow> 'z Event_scheme \<Rightarrow> 'h Route option" where
  "Resolve m e =
     (if event_file e \<noteq> None then
        (case fileHandler m of Some r \<Rightarrow> Some r | None \<Rightarrow> defaultHandler m)
      else
        (case routes m (command e) of
           Some r \<Rightarrow> Some r
         | None \<Rightarrow>
             (case alias_table m (command e) of
                None \<Rightarrow> defaultHandler m
              | Some path \<Rightarrow>
                  (case routes m path of Some r \<Rightarrow> Some r | None \<Rightarrow> defaultHandler m))))"

text \<open>
  Modelled from the spec: the middleware chain (section 4.2). The wrappers
  \<open>m1, m2, ..., mn\<close> around \<open>h\<close> are built from the inside: each wrapper receives the next
  handler of the chain.
\<close>

fun chain :: "('m, 'w) Middleware list \<Rightarrow> ('m, 'w) HandlerFunction \<Rightarrow> ('m, 'w) HandlerFunction" where
  "chain [] h = h"
| "chain (m # ms) h = m (chain ms h)"

text \<open>
  Modelled from the spec: the body of \<^verbatim>\<open>Server.processMessage\<close>, which \<^verbatim>\<open>server.go\<close> only
  starts (section 4.3): resolve a handler through the router, compose it with the
  middleware list as it is at dispatch time, invoke the result on the message. A dropped
  event leaves the world as it is.
\<close>

definition processMessage ::
  "((('z Event_scheme tbot_Message, 'w) HandlerFunction, 'c) DefaultMux, 'client, 'bot,
      'z Event_scheme tbot_Message, 'w) Server \<Rightarrow>
     'z Event_scheme tbot_Message \<Rightarrow> 'w \<Rightarrow> 'w" where
  "processMessage s msg w =
     (case Resolve (mux s) (Message msg) of
        None \<Rightarrow> w
      | Some r \<Rightarrow> chain (middlewares s) (route_handler r) msg w)"

section \<open>Instruments\<close>

text \<open>
  The server as \<^verbatim>\<open>NewServer\<close> has it after the loop over the options, before the adapter
  is created.
\<close>

definition configured ::
  "'mux \<Rightarrow> 'client \<Rightarrow> ('mux, 'client, 'bot, 'm, 'w) ServerOption list
     \<Rightarrow> ('mux, 'client, 'bot, 'm, 'w) Server" where
  "configured mux0 client0 options =
     fold (\<lambda>option server. option server) options
       \<lparr>mux = mux0, httpClient = client0, middlewares = [],
        webhookURL = [], listenAddr = [], bot_adapter = None\<rparr>"

text \<open>
  An adapter observed from outside: \<open>recording B\<close> behaves as \<open>B\<close> and keeps, beside the
  state of \<open>B\<close>, the list of the messages that were passed to \<^verbatim>\<open>Send\<close>, in order.
\<close>

definition recording ::
  "('bot, 'u, 'err) BotAdapter \<Rightarrow> ('bot \<times> model_Message list, 'u, 'err) BotAdapter" where
  "recording B =
     \<lparr>Adapter_GetUpdatesChan = (\<lambda>url addr (b, sent). Adapter_GetUpdatesChan B url addr b),
      Adapter_Send = (\<lambda>m (b, sent).
         (case Adapter_Send B m b of (err, b') \<Rightarrow> (err, (b', sent @ [m])))),
      Adapter_SendRaw = (\<lambda>endpoint params (b, sent).
         (case Adapter_SendRaw B endpoint params b of (err, b') \<Rightarrow> (err, (b', sent))))\<rparr>"

text \<open>
  A handler that writes one entry to a log, and a middleware that writes one entry before
  it calls the next handler and one after the next handler has returned.
\<close>

definition logs :: "'a \<Rightarrow> ('m, 'a list) HandlerFunction" where
  "logs x = (\<lambda>m w. w @ [x])"

definition around :: "'a \<Rightarrow> 'a \<Rightarrow> ('m, 'a list) Middleware" where
  "around enter exit next = (\<lambda>m w. next m (w @ [enter]) @ [exit])"

text \<open>
  A small adapter to run the server on: it has no state, fails to acquire updates for the
  webhook URL \<open>''bad''\<close>, delivers three updates and closes otherwise, and refuses to send
  an empty text.
\<close>

definition demo_updates :: "Event list" where
  "demo_updates =
     [\<lparr>event_text = ''/help'', event_file = None, event_chatID = 42\<rparr>,
      \<lparr>event_text = ''/start now'', event_file = None, event_chatID = 42\<rparr>,
      \<lparr>event_text = [], event_file = Some ''photo'', event_chatID = 7\<rparr>]"

definition demo_adapter :: "(unit, Event, string) BotAdapter" where
  "demo_adapter =
     \<lparr>Adapter_GetUpdatesChan = (\<lambda>url addr b.
         if url = ''bad'' then Inl ''no updates'' else Inr (Closes demo_updates)),
      Adapter_Send = (\<lambda>m b. (if Data m = [] then Some ''empty text'' else None, b)),
      Adapter_SendRaw = (\<lambda>endpoint params b. (None, b))\<rparr>"

definition demo_createBot :: "string \<Rightarrow> bool \<Rightarrow> unit option \<times> string option" where
  "demo_createBot token client =
     (if token = [] \<or> \<not> client then (None, Some ''no token'') else (Some (), None))"

definition demo_server ::
  "(((Event tbot_Message, string list) HandlerFunction, nat) DefaultMux, bool, unit,
     Event tbot_Message, string list) Server" where
  "demo_server =
     \<lparr>mux = NewDefaultMux, httpClient = True, middlewares = [], webhookURL = [],
      listenAddr = [], bot_adapter = Some ()\<rparr>"

text \<open>
  A new router whose handlers write to a log of strings, a \<^verbatim>\<open>/help\<close> handler of that
  kind, and two messages as the server wraps them: the command \<^verbatim>\<open>/start now\<close> and the
  command \<^verbatim>\<open>/help\<close>, both from chat 42.
\<close>

definition demo_mux :: "((Event tbot_Message, string list) HandlerFunction, nat) DefaultMux" where
  "demo_mux = NewDefaultMux"

definition demo_help :: "(Event tbot_Message, string list) HandlerFunction" where
  "demo_help = logs ''help''"

definition demo_start :: "Event tbot_Message" where
  "demo_start = \<lparr>Message = \<lparr>event_text = ''/start now'', event_file = None, event_chatID = 42\<rparr>\<rparr>"

definition demo_help_event :: Event where
  "demo_help_event = \<lparr>event_text = ''/help'', event_file = None, event_chatID = 42\<rparr>"

text \<open>
  Two option lists, and the server that \<^verbatim>\<open>NewServer\<close> builds over that router with the
  first of them when the adapter is created. The second list replaces the client by one
  with which \<open>demo_createBot\<close> fails.
\<close>

definition demo_options ::
  "(((Event tbot_Message, string list) HandlerFunction, nat) DefaultMux, bool, unit,
     Event tbot_Message, string list) ServerOption list" where
  "demo_options = [WithWebhook ''https://bot.example.com/hook'' ''0.0.0.0:8080'']"

definition demo_bad_options ::
  "(((Event tbot_Message, string list) HandlerFunction, nat) DefaultMux, bool, unit,
     Event tbot_Message, string list) ServerOption list" where
  "demo_bad_options = [WithHttpClient False]"

definition demo_new_server ::
  "(((Event tbot_Message, string list) HandlerFunction, nat) DefaultMux, bool, unit,
     Event tbot_Message, string list) Server" where
  "demo_new_server =
     \<lparr>mux = DefaultMux_HandleFunc ''/help'' demo_help [] demo_mux, httpClient = True,
      middlewares = [], webhookURL = ''https://bot.example.com/hook'',
      listenAddr = ''0.0.0.0:8080'', bot_adapter = Some ()\<rparr>"

section \<open>Properties\<close>

subsection \<open>Auxiliary facts\<close>

lemma middlewares_fold_AddMiddleware:
  "middlewares (fold AddMiddleware ms s) = middlewares s @ ms"
  by (induction ms arbitrary: s) (simp_all add: AddMiddleware_def)

lemma mux_fold_AddMiddleware: "mux (fold AddMiddleware ms s) = mux s"
  by (induction ms arbitrary: s) (simp_all add: AddMiddleware_def)

lemma chain_foldr: "chain ms h = foldr (\<lambda>m next. m next) ms h"
  by (induction ms) simp_all

lemma chain_around:
  "chain (map (\<lambda>(enter, exit). around enter exit) ps) (logs x) m w
     = w @ map fst ps @ [x] @ rev (map snd ps)"
  by (induction ps arbitrary: w) (auto simp: logs_def around_def)

lemma serve_loop_map:
  "serve_loop updates started
     = started @ map (\<lambda>u. Go_processMessage \<lparr>Message = u\<rparr>) updates"
  by (induction updates arbitrary: started) simp_all

lemma fold_options_keep:
  "\<forall>option\<in>set options. \<forall>x. f (option x) = f x \<Longrightarrow>
     f (fold (\<lambda>option server. option server) options s) = f s"
  by (induction options arbitrary: s) simp_all

lemma demo_resolve:
  "Resolve (mux (HandleFunc DefaultMux_ops ''/start'' (logs ''H'') [] demo_server))
     (Message demo_start)
   = Some \<lparr>route_handler = logs ''H'', route_description = []\<rparr>"
  by (simp add: Resolve_def HandleFunc_def DefaultMux_ops_def DefaultMux_HandleFunc_def
        demo_server_def demo_start_def NewDefaultMux_def command_def)

lemma demo_NewServer:
  "NewServer DefaultMux_ops demo_createBot demo_mux True demo_help ''token'' demo_options
     = Inr demo_new_server"
  by (simp add: NewServer_def demo_createBot_def WithWebhook_def HandleFunc_def DefaultMux_ops_def
        demo_new_server_def demo_options_def)

lemma demo_help_event: "event_file demo_help_event = None" "command demo_help_event = ''/help''"
  by (simp_all add: command_def demo_help_event_def)

lemma demo_createBot_configured:
  "demo_createBot ''token'' (httpClient (configured demo_mux True demo_bad_options))
     = (None, Some ''no token'')"
  by (simp add: configured_def WithHttpClient_def demo_createBot_def demo_bad_options_def)

subsection \<open>Serving\<close>

text \<open>
  C1, as the code has it. On a server whose adapter is set: when \<^verbatim>\<open>GetUpdatesChan\<close> fails,
  \<^verbatim>\<open>ListenAndServe\<close> returns that error and has started no goroutine; when the update
  channel is closed after finitely many updates, \<^verbatim>\<open>ListenAndServe\<close> has started exactly one
  goroutine for each of them, in order, starts no more, and returns \<^verbatim>\<open>nil\<close>: the closure
  is not reported as an error.
\<close>

theorem ListenAndServe_closure_returns_nil:
  assumes "bot_adapter s = Some b"
  shows "(Adapter_GetUpdatesChan B (webhookURL s) (listenAddr s) b = Inl err \<longrightarrow>
            ListenAndServe B s = Returned (Some err) [])
       \<and> (Adapter_GetUpdatesChan B (webhookURL s) (listenAddr s) b = Inr (Closes updates) \<longrightarrow>
            ListenAndServe B s =
              Returned None (map (\<lambda>u. Go_processMessage \<lparr>Message = u\<rparr>) updates))"
  using assms by (simp add: ListenAndServe_def serve_loop_map)

text \<open>
  The demo adapter fails for the webhook URL \<open>''bad''\<close> and closes the channel after three
  updates otherwise; the server returns the error in the first case and \<^verbatim>\<open>nil\<close> after three
  goroutines in the second.
\<close>

theorem ListenAndServe_closure_returns_nil_witness:
  "bot_adapter demo_server = Some ()
   \<and> Adapter_GetUpdatesChan demo_adapter ''bad'' [] () = Inl ''no updates''
   \<and> ListenAndServe demo_adapter (demo_server\<lparr>webhookURL := ''bad''\<rparr>)
       = Returned (Some ''no updates'') []
   \<and> Adapter_GetUpdatesChan demo_adapter [] [] () = Inr (Closes demo_updates)
   \<and> ListenAndServe demo_adapter demo_server
       = Returned None (map (\<lambda>u. Go_processMessage \<lparr>Message = u\<rparr>) demo_updates)"
proof -
  have b: "bot_adapter demo_server = Some ()"
    "bot_adapter (demo_server\<lparr>webhookURL := ''bad''\<rparr>) = Some ()"
    by (simp_all add: demo_server_def)
  have bad: "Adapter_GetUpdatesChan demo_adapter
               (webhookURL (demo_server\<lparr>webhookURL := ''bad''\<rparr>))
               (listenAddr (demo_server\<lparr>webhookURL := ''bad''\<rparr>)) () = Inl ''no updates''"
    and good: "Adapter_GetUpdatesChan demo_adapter (webhookURL demo_server)
                 (listenAddr demo_server) () = Inr (Closes demo_updates)"
    by (simp_all add: demo_server_def demo_adapter_def)
  have "ListenAndServe demo_adapter (demo_server\<lparr>webhookURL := ''bad''\<rparr>)
          = Returned (Some ''no updates'') []"
    by (rule ListenAndServe_closure_returns_nil [OF b(2), of demo_adapter "''no updates''"
          demo_updates, THEN conjunct1, THEN mp]) (rule bad)
  moreover have "ListenAndServe demo_adapter demo_server
          = Returned None (map (\<lambda>u. Go_processMessage \<lparr>Message = u\<rparr>) demo_updates)"
    by (rule ListenAndServe_closure_returns_nil [OF b(1), of demo_adapter "''no updates''"
          demo_updates, THEN conjunct2, THEN mp]) (rule good)
  moreover have "Adapter_GetUpdatesChan demo_adapter ''bad'' [] () = Inl ''no updates''"
    "Adapter_GetUpdatesChan demo_adapter [] [] () = Inr (Closes demo_updates)"
    by (simp_all add: demo_adapter_def)
  ultimately show ?thesis
    using b(1) by (intro conjI)
qed

text \<open>
  C1, as the claim states it, fails: the demo adapter hands out a channel that is closed
  after three updates, and \<^verbatim>\<open>ListenAndServe\<close> returns \<^verbatim>\<open>nil\<close>, not an error.
\<close>

theorem ListenAndServe_closure_is_not_an_error:
  "Adapter_GetUpdatesChan demo_adapter (webhookURL demo_server) (listenAddr demo_server) ()
     = Inr (Closes demo_updates)
   \<and> ListenAndServe demo_adapter demo_server =
     Returned None
       [Go_processMessage
          \<lparr>Message = \<lparr>event_text = ''/help'', event_file = None, event_chatID = 42\<rparr>\<rparr>,
        Go_processMessage
          \<lparr>Message = \<lparr>event_text = ''/start now'', event_file = None, event_chatID = 42\<rparr>\<rparr>,
        Go_processMessage
          \<lparr>Message = \<lparr>event_text = [], event_file = Some ''photo'', event_chatID = 7\<rparr>\<rparr>]"
  by (simp add: ListenAndServe_def demo_server_def demo_adapter_def demo_updates_def)

subsection \<open>Middlewares\<close>

text \<open>
  C5. \<^verbatim>\<open>AddMiddleware\<close> appends: the new middleware list is the old one with the new
  middleware at the end, the old list is its prefix, unchanged and in order, and no other
  field of the server changes.
\<close>

theorem AddMiddleware_appends:
  "middlewares (AddMiddleware mid s) = middlewares s @ [mid]
   \<and> take (length (middlewares s)) (middlewares (AddMiddleware mid s)) = middlewares s
   \<and> length (middlewares (AddMiddleware mid s)) = Suc (length (middlewares s))
   \<and> mux (AddMiddleware mid s) = mux s
   \<and> httpClient (AddMiddleware mid s) = httpClient s
   \<and> webhookURL (AddMiddleware mid s) = webhookURL s
   \<and> listenAddr (AddMiddleware mid s) = listenAddr s
   \<and> bot_adapter (AddMiddleware mid s) = bot_adapter s"
  by (simp add: AddMiddleware_def)

text \<open>
  C2. On a server with no middleware yet, let the middlewares \<open>ms = [m1, ..., mn]\<close> be
  registered in that order by \<^verbatim>\<open>AddMiddleware\<close>, and let a message resolve to a route with
  handler \<open>h\<close>. Then dispatching the message runs \<open>m1 (m2 (... (mn h)))\<close> on it, which is
  \<open>foldr\<close> of application over \<open>ms\<close>. Hence, when each middleware logs one entry before
  it calls the next handler and one after, and \<open>h\<close> logs \<open>x\<close>, the log reads: the entry
  marks in registration order, \<open>x\<close>, the exit marks in reverse registration order. The
  first registered middleware runs first and regains control last.
\<close>

theorem middlewares_first_registered_outermost:
  "(middlewares s = [] \<and> Resolve (mux s) (Message msg) = Some r \<longrightarrow>
      processMessage (fold AddMiddleware ms s) msg w
        = foldr (\<lambda>m next. m next) ms (route_handler r) msg w)
   \<and> (middlewares s' = [] \<and> Resolve (mux s') (Message msg') = Some r'
        \<and> route_handler r' = logs x \<longrightarrow>
      processMessage (fold AddMiddleware (map (\<lambda>(enter, exit). around enter exit) ps) s') msg' tr
        = tr @ map fst ps @ [x] @ rev (map snd ps))"
  by (simp add: processMessage_def mux_fold_AddMiddleware middlewares_fold_AddMiddleware
        chain_foldr [symmetric] chain_around)

text \<open>
  The scenario of the specification: \<open>log\<close> then \<open>auth\<close> are registered around the
  handler \<open>H\<close> of \<^verbatim>\<open>/start\<close>. The dispatched handler is \<open>log (auth H)\<close> and the log reads
  log-enter, auth-enter, H, auth-exit, log-exit.
\<close>

theorem middlewares_first_registered_outermost_witness:
  "middlewares (HandleFunc DefaultMux_ops ''/start'' (logs ''H'') [] demo_server) = []
   \<and> Resolve (mux (HandleFunc DefaultMux_ops ''/start'' (logs ''H'') [] demo_server))
         (Message demo_start)
       = Some \<lparr>route_handler = logs ''H'', route_description = []\<rparr>
   \<and> processMessage
       (AddMiddleware (around ''auth-enter'' ''auth-exit'')
         (AddMiddleware (around ''log-enter'' ''log-exit'')
           (HandleFunc DefaultMux_ops ''/start'' (logs ''H'') [] demo_server)))
       demo_start []
     = around ''log-enter'' ''log-exit'' (around ''auth-enter'' ''auth-exit'' (logs ''H''))
         demo_start []
   \<and> processMessage
       (AddMiddleware (around ''auth-enter'' ''auth-exit'')
         (AddMiddleware (around ''log-enter'' ''log-exit'')
           (HandleFunc DefaultMux_ops ''/start'' (logs ''H'') [] demo_server)))
       demo_start []
     = [''log-enter'', ''auth-enter'', ''H'', ''auth-exit'', ''log-exit'']"
proof -
  let ?s = "HandleFunc DefaultMux_ops ''/start'' (logs ''H'') [] demo_server"
  let ?r = "\<lparr>route_handler = logs ''H'', route_description = []\<rparr>
              :: (Event tbot_Message, string list) HandlerFunction Route"
  let ?ps = "[(''log-enter'', ''log-exit''), (''auth-enter'', ''auth-exit'')]"
  let ?ms = "map (\<lambda>(enter, exit). around enter exit) ?ps
               :: (Event tbot_Message, string list) Middleware list"
  have m: "middlewares ?s = []"
    by (simp add: HandleFunc_def demo_server_def)
  note r = demo_resolve
  note inst = middlewares_first_registered_outermost
    [of ?s demo_start ?r ?ms "[]" ?s demo_start ?r "''H''" ?ps "[]"]
  have nest: "processMessage (fold AddMiddleware ?ms ?s) demo_start []
                = foldr (\<lambda>m next. m next) ?ms (route_handler ?r) demo_start []"
    by (rule inst [THEN conjunct1, THEN mp]) (simp add: m r)
  have order: "processMessage (fold AddMiddleware ?ms ?s) demo_start []
                = [] @ map fst ?ps @ [''H''] @ rev (map snd ?ps)"
    by (rule inst [THEN conjunct2, THEN mp]) (simp add: m r)
  from nest
  have nested: "processMessage
       (AddMiddleware (around ''auth-enter'' ''auth-exit'')
         (AddMiddleware (around ''log-enter'' ''log-exit'') ?s)) demo_start []
     = around ''log-enter'' ''log-exit'' (around ''auth-enter'' ''auth-exit'' (logs ''H''))
         demo_start []"
    by simp
  from order
  have ordered: "processMessage
       (AddMiddleware (around ''auth-enter'' ''auth-exit'')
         (AddMiddleware (around ''log-enter'' ''log-exit'') ?s)) demo_start []
     = [''log-enter'', ''auth-enter'', ''H'', ''auth-exit'', ''log-exit'']"
    by simp
  from m r nested ordered show ?thesis
    by (intro conjI)
qed

subsection \<open>Registration\<close>

text \<open>
  C4. \<^verbatim>\<open>Handle\<close> with path \<open>p\<close>, reply \<open>r\<close> and descriptions \<open>d\<close> is \<^verbatim>\<open>HandleFunc\<close> at
  \<open>p\<close> with \<open>d\<close> and a handler whose whole effect on any message \<open>m\<close>, in any world, is
  that of \<^verbatim>\<open>m.Reply(r)\<close>; the mux receives exactly that registration and the rest of the
  server is untouched.
\<close>

theorem Handle_registers_static_reply:
  "Handle M Reply p r d s = HandleFunc M p (\<lambda>m w. Reply m r w) d s
   \<and> mux (Handle M Reply p r d s) = Mux_HandleFunc M p (\<lambda>m w. Reply m r w) d (mux s)
   \<and> middlewares (Handle M Reply p r d s) = middlewares s
   \<and> httpClient (Handle M Reply p r d s) = httpClient s
   \<and> webhookURL (Handle M Reply p r d s) = webhookURL s
   \<and> listenAddr (Handle M Reply p r d s) = listenAddr s
   \<and> bot_adapter (Handle M Reply p r d s) = bot_adapter s"
  by (simp add: Handle_def HandleFunc_def)

text \<open>
  C6. On the router of the specification, registering \<open>h1\<close> and then \<open>h2\<close> at the same
  path \<open>p\<close> through \<^verbatim>\<open>HandleFunc\<close> gives the very server that registering \<open>h2\<close> alone
  gives. For a path that can be registered, that is a non-empty one, the route table then
  has one entry at \<open>p\<close>, with handler \<open>h2\<close>, and \<open>p\<close> is the only path added to it; no
  registration was refused that was not refused before; a command event whose command is
  \<open>p\<close> resolves to \<open>h2\<close>, and dispatching it runs \<open>h2\<close> under the middlewares. For the
  empty path both registrations are refused: the route table is as it was, with no entry
  for either handler.
\<close>

theorem HandleFunc_twice_replaces:
  "HandleFunc DefaultMux_ops p h2 d2 (HandleFunc DefaultMux_ops p h1 d1 s)
     = HandleFunc DefaultMux_ops p h2 d2 s
   \<and> (p \<noteq> [] \<longrightarrow>
        routes (mux (HandleFunc DefaultMux_ops p h2 d2 (HandleFunc DefaultMux_ops p h1 d1 s))) p
          = Some \<lparr>route_handler = h2, route_description = d2\<rparr>
        \<and> dom (routes (mux (HandleFunc DefaultMux_ops p h2 d2
                               (HandleFunc DefaultMux_ops p h1 d1 s))))
          = insert p (dom (routes (mux s)))
        \<and> registration_failed (mux (HandleFunc DefaultMux_ops p h2 d2
                                       (HandleFunc DefaultMux_ops p h1 d1 s)))
          = registration_failed (mux s)
        \<and> (event_file (Message msg) = None \<and> command (Message msg) = p \<longrightarrow>
             Resolve (mux (HandleFunc DefaultMux_ops p h2 d2 (HandleFunc DefaultMux_ops p h1 d1 s)))
               (Message msg) = Some \<lparr>route_handler = h2, route_description = d2\<rparr>
             \<and> processMessage
                 (HandleFunc DefaultMux_ops p h2 d2 (HandleFunc DefaultMux_ops p h1 d1 s))
                 msg w = chain (middlewares s) h2 msg w))
   \<and> (p = [] \<longrightarrow>
        routes (mux (HandleFunc DefaultMux_ops p h2 d2 (HandleFunc DefaultMux_ops p h1 d1 s)))
          = routes (mux s)
        \<and> registration_failed (mux (HandleFunc DefaultMux_ops p h2 d2
                                       (HandleFunc DefaultMux_ops p h1 d1 s))))"
  by (simp add: HandleFunc_def DefaultMux_ops_def DefaultMux_HandleFunc_def Resolve_def
        processMessage_def)

text \<open>
  Two handlers registered at \<^verbatim>\<open>/start\<close>, the first logging \<open>first\<close> and the second
  \<open>second\<close>: the command \<^verbatim>\<open>/start now\<close> logs \<open>second\<close> only. The same two handlers at the
  empty path: both registrations are refused and the demo server's route table stays as it
  was.
\<close>

theorem HandleFunc_twice_replaces_witness:
  "''/start'' \<noteq> []
   \<and> event_file (Message demo_start) = None
   \<and> command (Message demo_start) = ''/start''
   \<and> processMessage
         (HandleFunc DefaultMux_ops ''/start'' (logs ''second'') [''again'']
           (HandleFunc DefaultMux_ops ''/start'' (logs ''first'') [] demo_server))
         demo_start []
       = [''second'']
   \<and> routes (mux (HandleFunc DefaultMux_ops [] (logs ''second'') [''again'']
                     (HandleFunc DefaultMux_ops [] (logs ''first'') [] demo_server)))
       = routes (mux demo_server)
   \<and> registration_failed
         (mux (HandleFunc DefaultMux_ops [] (logs ''second'') [''again'']
                (HandleFunc DefaultMux_ops [] (logs ''first'') [] demo_server)))"
proof -
  have path: "''/start'' \<noteq> []"
    by simp
  have cmd: "event_file (Message demo_start) = None \<and> command (Message demo_start) = ''/start''"
    by (simp add: command_def demo_start_def)
  have ran: "chain (middlewares demo_server) (logs ''second'') demo_start [] = [''second'']"
    by (simp add: demo_server_def logs_def)
  note reg = HandleFunc_twice_replaces [of "''/start''" "logs ''second''" "[''again'']"
      "logs ''first''" "[]" demo_server demo_start "[]"]
  note refused = HandleFunc_twice_replaces [of "[]" "logs ''second''" "[''again'']"
      "logs ''first''" "[]" demo_server demo_start "[]"]
  have "processMessage
         (HandleFunc DefaultMux_ops ''/start'' (logs ''second'') [''again'']
           (HandleFunc DefaultMux_ops ''/start'' (logs ''first'') [] demo_server)) demo_start []
        = chain (middlewares demo_server) (logs ''second'') demo_start []"
    by (rule reg [THEN conjunct2, THEN conjunct1, THEN mp, OF path, THEN conjunct2,
          THEN conjunct2, THEN conjunct2, THEN mp, OF cmd, THEN conjunct2])
  with ran have dispatched: "processMessage
         (HandleFunc DefaultMux_ops ''/start'' (logs ''second'') [''again'']
           (HandleFunc DefaultMux_ops ''/start'' (logs ''first'') [] demo_server)) demo_start []
        = [''second'']"
    by simp
  have empty: "routes (mux (HandleFunc DefaultMux_ops [] (logs ''second'') [''again'']
                     (HandleFunc DefaultMux_ops [] (logs ''first'') [] demo_server)))
       = routes (mux demo_server)
     \<and> registration_failed
         (mux (HandleFunc DefaultMux_ops [] (logs ''second'') [''again'']
                (HandleFunc DefaultMux_ops [] (logs ''first'') [] demo_server)))"
    by (rule refused [THEN conjunct2, THEN conjunct2, THEN mp]) (rule refl)
  from path cmd dispatched empty show ?thesis
    by (intro conjI) simp_all
qed

subsection \<open>Conversation reset\<close>

text \<open>
  C7. On the router of the specification \<^verbatim>\<open>Reset\<close> is idempotent: a second \<^verbatim>\<open>Reset\<close> of
  the same chat id leaves the server as the first one left it. After a \<^verbatim>\<open>Reset\<close> the chat
  has no conversation state, and resetting a chat that has none changes nothing; no case
  of \<^verbatim>\<open>Reset\<close> is an error.
\<close>

theorem Reset_idempotent:
  "Reset DefaultMux_ops c (Reset DefaultMux_ops c s) = Reset DefaultMux_ops c s
   \<and> conversations (mux (Reset DefaultMux_ops c s)) c = None
   \<and> (conversations (mux s) c = None \<longrightarrow> Reset DefaultMux_ops c s = s)"
  by (simp add: Reset_def DefaultMux_ops_def DefaultMux_Reset_def fun_upd_idem)

text \<open>Chat 42 has no conversation on the demo server: resetting it is a no-op.\<close>

theorem Reset_idempotent_witness:
  "conversations (mux demo_server) 42 = None
   \<and> Reset DefaultMux_ops 42 demo_server = demo_server
   \<and> Reset DefaultMux_ops 42 (Reset DefaultMux_ops 42 demo_server)
       = Reset DefaultMux_ops 42 demo_server"
proof -
  have none: "conversations (mux demo_server) 42 = None"
    by (simp add: demo_server_def NewDefaultMux_def)
  note inst = Reset_idempotent [of 42 demo_server]
  have "Reset DefaultMux_ops 42 demo_server = demo_server"
    by (rule inst [THEN conjunct2, THEN conjunct2, THEN mp]) (rule none)
  with none inst [THEN conjunct1] show ?thesis
    by (intro conjI)
qed

subsection \<open>Sending\<close>

text \<open>
  C8. On a server whose adapter is set, \<^verbatim>\<open>Send\<close> with chat id \<open>c\<close> and text \<open>t\<close>
  returns what the adapter's \<^verbatim>\<open>Send\<close> returns for the message of type text, chat id \<open>c\<close>
  and data \<open>t\<close>, an error exactly when the adapter gives one. Seen through a recorder, the
  adapter has received exactly that one message more.
\<close>

theorem Send_passes_one_text_message:
  "(bot_adapter s = Some b \<longrightarrow>
      Send B c t s =
        Some (fst (Adapter_Send B \<lparr>Type = MessageText, ChatID = c, Data = t\<rparr> b),
              s\<lparr>bot_adapter :=
                  Some (snd (Adapter_Send B \<lparr>Type = MessageText, ChatID = c, Data = t\<rparr> b))\<rparr>))
   \<and> (bot_adapter s' = Some (b, sent) \<longrightarrow>
      Send (recording B) c t s' =
        Some (fst (Adapter_Send B \<lparr>Type = MessageText, ChatID = c, Data = t\<rparr> b),
              s'\<lparr>bot_adapter :=
                   Some (snd (Adapter_Send B \<lparr>Type = MessageText, ChatID = c, Data = t\<rparr> b),
                         sent @ [\<lparr>Type = MessageText, ChatID = c, Data = t\<rparr>])\<rparr>))"
  by (simp add: Send_def recording_def split: prod.splits)

text \<open>
  The demo adapter accepts the text \<open>hello\<close> for chat 42; the recorder, empty before, then
  holds that one text message.
\<close>

theorem Send_passes_one_text_message_witness:
  "bot_adapter demo_server = Some ()
   \<and> Send demo_adapter 42 ''hello'' demo_server = Some (None, demo_server)
   \<and> Send (recording demo_adapter) 42 ''hello''
        \<lparr>mux = (), httpClient = (), middlewares = [], webhookURL = [], listenAddr = [],
         bot_adapter = Some ((), [])\<rparr>
       = Some (None,
           \<lparr>mux = (), httpClient = (), middlewares = [], webhookURL = [], listenAddr = [],
            bot_adapter = Some ((), [\<lparr>Type = MessageText, ChatID = 42, Data = ''hello''\<rparr>])\<rparr>)"
proof -
  let ?m = "\<lparr>Type = MessageText, ChatID = 42, Data = ''hello''\<rparr>"
  let ?s' = "\<lparr>mux = (), httpClient = (), middlewares = [], webhookURL = [], listenAddr = [],
         bot_adapter = Some ((), [])\<rparr>"
  have set: "bot_adapter demo_server = Some ()" "bot_adapter ?s' = Some ((), [])"
    by (simp_all add: demo_server_def)
  have sent: "Adapter_Send demo_adapter ?m () = (None, ())"
    by (simp add: demo_adapter_def)
  have same: "demo_server\<lparr>bot_adapter := Some ()\<rparr> = demo_server"
    by (simp add: demo_server_def)
  from set Send_passes_one_text_message [of demo_server "()" demo_adapter 42 "''hello''" ?s' "[]"]
  have "Send demo_adapter 42 ''hello'' demo_server
          = Some (fst (Adapter_Send demo_adapter ?m ()),
                  demo_server\<lparr>bot_adapter := Some (snd (Adapter_Send demo_adapter ?m ()))\<rparr>)"
    and "Send (recording demo_adapter) 42 ''hello'' ?s'
          = Some (fst (Adapter_Send demo_adapter ?m ()),
                  ?s'\<lparr>bot_adapter := Some (snd (Adapter_Send demo_adapter ?m ()), [] @ [?m])\<rparr>)"
    by blast+
  with set sent same show ?thesis
    by simp
qed

subsection \<open>Construction\<close>

text \<open>
  C9. Whatever the mux and the options, a server returned by \<^verbatim>\<open>NewServer\<close> has had
  \<^verbatim>\<open>HandleFunc\<close> called on its mux with the path \<^verbatim>\<open>/help\<close>, the help handler and no
  description, after the options were applied. Over the router of the specification the
  returned server therefore resolves every command event whose command is \<^verbatim>\<open>/help\<close> to the
  help handler, though the caller registered nothing.
\<close>

theorem NewServer_registers_help:
  "(NewServer M createBot mux0 client0 help token options = Inr s \<longrightarrow>
      mux s = Mux_HandleFunc M ''/help'' help [] (mux (configured mux0 client0 options)))
   \<and> (NewServer DefaultMux_ops createBot' mux0' client0' help' token' options' = Inr s'
        \<and> event_file e = None \<and> command e = ''/help'' \<longrightarrow>
      Resolve (mux s') e = Some \<lparr>route_handler = help', route_description = []\<rparr>)"
  by (auto simp: NewServer_def configured_def Let_def HandleFunc_def DefaultMux_ops_def
        DefaultMux_HandleFunc_def Resolve_def split: prod.splits option.splits)

text \<open>
  The demo server built by \<^verbatim>\<open>NewServer\<close> with a webhook option and no registration of the
  caller's resolves the command \<^verbatim>\<open>/help\<close> to the help handler.
\<close>

theorem NewServer_registers_help_witness:
  "NewServer DefaultMux_ops demo_createBot demo_mux True demo_help ''token'' demo_options
     = Inr demo_new_server
   \<and> event_file demo_help_event = None
   \<and> command demo_help_event = ''/help''
   \<and> mux demo_new_server = DefaultMux_HandleFunc ''/help'' demo_help [] demo_mux
   \<and> Resolve (mux demo_new_server) demo_help_event
       = Some \<lparr>route_handler = demo_help, route_description = []\<rparr>"
proof -
  note inst = NewServer_registers_help [of DefaultMux_ops demo_createBot demo_mux True demo_help
        "''token''" demo_options demo_new_server
        demo_createBot demo_mux True demo_help "''token''" demo_options demo_new_server
        demo_help_event]
  have "Resolve (mux demo_new_server) demo_help_event
          = Some \<lparr>route_handler = demo_help, route_description = []\<rparr>"
    by (rule inst [THEN conjunct2, THEN mp]) (simp add: demo_NewServer demo_help_event)
  moreover have "mux demo_new_server = DefaultMux_HandleFunc ''/help'' demo_help [] demo_mux"
    by (simp add: demo_new_server_def)
  ultimately show ?thesis
    using demo_NewServer demo_help_event by (intro conjI)
qed

text \<open>
  C10. \<^verbatim>\<open>NewServer\<close> applies the options in order to the server with the default mux and
  client, and creates the adapter with the token and the client that the options left.
  If the creation gives an error, \<^verbatim>\<open>NewServer\<close> returns that error and no server. If
  \<^verbatim>\<open>NewServer\<close> returns a server, the creation gave no error, the server's adapter is the
  created one, and the server is the configured one with that adapter and with \<^verbatim>\<open>/help\<close>
  registered on its mux; its client is the default client if no option changes the client,
  and its mux is the default mux (with \<^verbatim>\<open>/help\<close> registered) if no option changes the mux.
\<close>

theorem NewServer_atomic_on_failure:
  "(createBot token (httpClient (configured mux0 client0 options)) = (tb, Some err) \<longrightarrow>
      NewServer M createBot mux0 client0 help token options = Inl err)
   \<and> (NewServer M createBot mux0 client0 help token options = Inr s \<longrightarrow>
        createBot token (httpClient (configured mux0 client0 options)) = (bot_adapter s, None)
        \<and> s = HandleFunc M ''/help'' help []
                ((configured mux0 client0 options)\<lparr>bot_adapter := bot_adapter s\<rparr>)
        \<and> ((\<forall>option\<in>set options. \<forall>x. httpClient (option x) = httpClient x) \<longrightarrow>
              httpClient s = client0)
        \<and> ((\<forall>option\<in>set options. \<forall>x. mux (option x) = mux x) \<longrightarrow>
              mux s = Mux_HandleFunc M ''/help'' help [] mux0))
   \<and> configured mux0 client0 [] =
        \<lparr>mux = mux0, httpClient = client0, middlewares = [], webhookURL = [],
         listenAddr = [], bot_adapter = None\<rparr>
   \<and> configured mux0 client0 (options @ [option]) = option (configured mux0 client0 options)"
proof (intro conjI impI)
  assume "createBot token (httpClient (configured mux0 client0 options)) = (tb, Some err)"
  then show "NewServer M createBot mux0 client0 help token options = Inl err"
    by (simp add: NewServer_def configured_def)
next
  assume new: "NewServer M createBot mux0 client0 help token options = Inr s"
  then show created:
    "createBot token (httpClient (configured mux0 client0 options)) = (bot_adapter s, None)"
    by (auto simp: NewServer_def configured_def Let_def HandleFunc_def
          split: prod.splits option.splits)
  with new show built: "s = HandleFunc M ''/help'' help []
                ((configured mux0 client0 options)\<lparr>bot_adapter := bot_adapter s\<rparr>)"
    by (simp add: NewServer_def configured_def Let_def)
  from new have fields:
    "httpClient s = httpClient (configured mux0 client0 options)"
    "mux s = Mux_HandleFunc M ''/help'' help [] (mux (configured mux0 client0 options))"
    by (auto simp: NewServer_def configured_def Let_def HandleFunc_def
          split: prod.splits option.splits)
  {
    assume "\<forall>option\<in>set options. \<forall>x. httpClient (option x) = httpClient x"
    then have "httpClient (configured mux0 client0 options) = client0"
      unfolding configured_def by (simp add: fold_options_keep [where f = httpClient])
    with fields(1) show "httpClient s = client0"
      by simp
  next
    assume "\<forall>option\<in>set options. \<forall>x. mux (option x) = mux x"
    then have "mux (configured mux0 client0 options) = mux0"
      unfolding configured_def by (simp add: fold_options_keep [where f = mux])
    with fields(2) show "mux s = Mux_HandleFunc M ''/help'' help [] mux0"
      by simp
  }
next
  show "configured mux0 client0 [] =
        \<lparr>mux = mux0, httpClient = client0, middlewares = [], webhookURL = [],
         listenAddr = [], bot_adapter = None\<rparr>"
    by (simp add: configured_def)
next
  show "configured mux0 client0 (options @ [option]) = option (configured mux0 client0 options)"
    by (simp add: configured_def)
qed

text \<open>
  With the option that replaces the client by one the adapter cannot be created with,
  \<^verbatim>\<open>NewServer\<close> returns the error and no server; with the webhook option it returns the
  demo server, whose adapter is the created one.
\<close>

theorem NewServer_atomic_on_failure_witness:
  "demo_createBot ''token'' (httpClient (configured demo_mux True demo_bad_options))
     = (None, Some ''no token'')
   \<and> NewServer DefaultMux_ops demo_createBot demo_mux True demo_help ''token'' demo_bad_options
     = Inl ''no token''
   \<and> NewServer DefaultMux_ops demo_createBot demo_mux True demo_help ''token'' demo_options
     = Inr demo_new_server
   \<and> demo_createBot ''token'' (httpClient (configured demo_mux True demo_options))
     = (bot_adapter demo_new_server, None)
   \<and> bot_adapter demo_new_server = Some ()"
proof -
  have failed: "NewServer DefaultMux_ops demo_createBot demo_mux True demo_help ''token''
       demo_bad_options = Inl ''no token''"
    by (rule NewServer_atomic_on_failure [of demo_createBot "''token''" demo_mux True
          demo_bad_options None "''no token''" DefaultMux_ops demo_help
          demo_new_server id, THEN conjunct1, THEN mp])
      (rule demo_createBot_configured)
  have created: "demo_createBot ''token'' (httpClient (configured demo_mux True demo_options))
     = (bot_adapter demo_new_server, None)"
    by (rule NewServer_atomic_on_failure [of demo_createBot "''token''" demo_mux True
          demo_options None "''no token''" DefaultMux_ops demo_help demo_new_server id,
          THEN conjunct2, THEN conjunct1, THEN mp, THEN conjunct1])
      (rule demo_NewServer)
  have "bot_adapter demo_new_server = Some ()"
    by (simp add: demo_new_server_def)
  with failed created demo_NewServer demo_createBot_configured show ?thesis
    by (intro conjI)
qed

end
